theory Spec2Isabelle
  imports Complex_Main
begin

section \<open>JSON values and the dynamic operations of Python the scripts rely on\<close>

text \<open>
  The scripts handle the values that \<^verbatim>\<open>response.json()\<close> returns: \<^verbatim>\<open>None\<close>, booleans,
  unbounded integers, floats, strings, lists and dictionaries. A dictionary is an association
  list read with \<open>map_of\<close> (the first binding of a key is the dictionary's value for it).

  Floating-point numbers are values of a type parameter \<open>'f\<close>, and the three primitives the
  scripts use on them (conversion from an integer, addition, division) together with the
  truth value of a float come in a record of operations. Every theorem that quantifies over
  that record holds for binary64 in particular; \<open>exact_ops\<close> below is the instance with
  exact rational arithmetic, which agrees with binary64 wherever all the values involved are
  representable. The float literals \<^verbatim>\<open>0.0\<close> and \<^verbatim>\<open>1000.0\<close> are the conversions of 0 and 1000.
\<close>

datatype 'f json =
    JNull
  | JBool bool
  | JInt int
  | JFloat 'f
  | JStr string
  | JList "'f json list"
  | JObj "(string \<times> 'f json) list"

type_synonym 'f pydict = "(string \<times> 'f json) list"

text \<open>
  The exceptions that the modelled code can raise and does not catch. \<open>DictSliceError\<close> is
  what subscripting a dictionary with a slice raises (a \<^verbatim>\<open>TypeError\<close> before Python 3.12, a
  \<^verbatim>\<open>KeyError\<close> from 3.12 on).
\<close>

datatype error = TypeError | AttributeError | OverflowError | DictSliceError

record 'f float_ops =
  f_of_int :: "int \<Rightarrow> 'f"
  f_add :: "'f \<Rightarrow> 'f \<Rightarrow> 'f"
  f_div :: "'f \<Rightarrow> 'f \<Rightarrow> 'f"
  f_truthy :: "'f \<Rightarrow> bool"

definition exact_ops :: "rat float_ops" where
  "exact_ops = \<lparr> f_of_int = of_int, f_add = (+), f_div = (/), f_truthy = (\<lambda>x. x \<noteq> 0) \<rparr>"

text \<open>\<^verbatim>\<open>d.get(key, default)\<close> and \<^verbatim>\<open>key in d\<close> on a dictionary.\<close>

definition dict_get :: "'f pydict \<Rightarrow> string \<Rightarrow> 'f json \<Rightarrow> 'f json" where
  "dict_get d k dflt = (case map_of d k of None \<Rightarrow> dflt | Some v \<Rightarrow> v)"

definition dict_has :: "'f pydict \<Rightarrow> string \<Rightarrow> bool" where
  "dict_has d k = (map_of d k \<noteq> None)"

text \<open>
  Converting an integer to a float raises \<^verbatim>\<open>OverflowError\<close> exactly when its magnitude
  reaches the midpoint between the largest double and \<open>2 ^ 1024\<close>.
\<close>

definition int_to_float :: "'f float_ops \<Rightarrow> int \<Rightarrow> error + 'f" where
  "int_to_float ops i =
     (if \<bar>i\<bar> < 2 ^ 1024 - 2 ^ 970 then Inr (f_of_int ops i) else Inl OverflowError)"

text \<open>
  The coercion Python applies to the other operand of \<^verbatim>\<open>+\<close> or \<^verbatim>\<open>/\<close> when one operand is a
  float: floats pass, integers and booleans are converted, anything else is a \<^verbatim>\<open>TypeError\<close>.
\<close>

fun as_float :: "'f float_ops \<Rightarrow> 'f json \<Rightarrow> error + 'f" where
  "as_float ops (JFloat x) = Inr x"
| "as_float ops (JInt i) = int_to_float ops i"
| "as_float ops (JBool b) = Inr (f_of_int ops (if b then 1 else 0))"
| "as_float ops _ = Inl TypeError"

text \<open>\<^verbatim>\<open>v / y\<close> and \<^verbatim>\<open>v + y\<close> for a float \<open>y\<close> (in the division, \<open>y\<close> is the non-zero \<^verbatim>\<open>1000.0\<close>).\<close>

definition py_truediv :: "'f float_ops \<Rightarrow> 'f json \<Rightarrow> 'f \<Rightarrow> error + 'f" where
  "py_truediv ops v y = (case as_float ops v of Inl e \<Rightarrow> Inl e | Inr x \<Rightarrow> Inr (f_div ops x y))"

definition py_add :: "'f float_ops \<Rightarrow> 'f json \<Rightarrow> 'f \<Rightarrow> error + 'f" where
  "py_add ops v y = (case as_float ops v of Inl e \<Rightarrow> Inl e | Inr x \<Rightarrow> Inr (f_add ops x y))"

text \<open>The slice \<^verbatim>\<open>v[:n]\<close>.\<close>

fun py_slice_to :: "nat \<Rightarrow> 'f json \<Rightarrow> error + 'f json" where
  "py_slice_to n (JStr s) = Inr (JStr (take n s))"
| "py_slice_to n (JList xs) = Inr (JList (take n xs))"
| "py_slice_to n (JObj d) = Inl DictSliceError"
| "py_slice_to n _ = Inl TypeError"

text \<open>
  A printed line is the f-string it came from: literal pieces and formatted values in order.
  Evaluating the f-string can raise, and the model raises then; writing the line to the
  console is taken to succeed.
\<close>

datatype 'f piece = Lit string | Val "'f json"

type_synonym 'f line = "'f piece list"

section \<open>The Transcript Mapper: \<^verbatim>\<open>transform_vapi_transcript\<close> of vapi_upload.py\<close>

text \<open>The \<^verbatim>\<open>if/elif\<close> chain that maps the role; \<open>None\<close> is the \<^verbatim>\<open>else\<close> branch.\<close>

definition coval_role_of :: "'f json \<Rightarrow> string option" where
  "coval_role_of vapi_role =
     (if vapi_role = JStr ''user'' then Some ''assistant''
      else if vapi_role = JStr ''bot'' then Some ''user''
      else if vapi_role = JStr ''system'' then Some ''system''
      else None)"

text \<open>
  One iteration of the loop on the message with index \<open>idx\<close>: the lines it prints and
  then an exception, \<open>Inr None\<close> for \<^verbatim>\<open>continue\<close>, or the entry appended to the transcript.
  A message that is not a dictionary has no \<^verbatim>\<open>get\<close>.
\<close>

fun loop_body :: "'f float_ops \<Rightarrow> nat \<Rightarrow> 'f json \<Rightarrow> 'f line list \<times> (error + 'f pydict option)" where
  "loop_body ops idx (JObj msg) =
     (let vapi_role = dict_get msg ''role'' (JStr '''');
          message_text = dict_get msg ''message'' (JStr '''')
      in case coval_role_of vapi_role of
           None \<Rightarrow>
             ([[Lit ''Unknown role '', Lit [CHR 0x27], Val vapi_role, Lit [CHR 0x27],
                Lit '' in message '', Val (JInt (int idx)), Lit '', skipping'']], Inr None)
         | Some coval_role \<Rightarrow>
             (let start_time = dict_get msg ''secondsFromStart'' (JFloat (f_of_int ops 0));
                  duration_ms = dict_get msg ''duration'' (JInt 0)
              in case py_truediv ops duration_ms (f_of_int ops 1000) of
                   Inl e \<Rightarrow> ([], Inl e)
                 | Inr duration_seconds \<Rightarrow>
                     (case py_add ops start_time duration_seconds of
                        Inl e \<Rightarrow> ([], Inl e)
                      | Inr end_time \<Rightarrow>
                          (let entry = [(''role'', JStr coval_role),
                                        (''content'', message_text),
                                        (''start_time'', start_time),
                                        (''end_time'', JFloat end_time)]
                                       @ (if dict_has msg ''time''
                                          then [(''timestamp'', dict_get msg ''time'' JNull)]
                                          else [])
                           in case py_slice_to 50 message_text of
                                Inl e \<Rightarrow> ([], Inl e)
                              | Inr preview \<Rightarrow>
                                  ([[Lit ''['', Val (JInt (int idx + 1)), Lit ''] '', Val vapi_role,
                                     Lit '' -> '', Val (JStr coval_role), Lit '': '', Val preview,
                                     Lit ''...'']],
                                   Inr (Some entry))))))"
| "loop_body ops idx _ = ([], Inl AttributeError)"

text \<open>
  The \<^verbatim>\<open>for\<close> loop over \<^verbatim>\<open>enumerate(vapi_messages)\<close>, with the transcript built so far and
  the lines printed so far.
\<close>

fun transform_loop ::
  "'f float_ops \<Rightarrow> nat \<Rightarrow> 'f json list \<Rightarrow> 'f pydict list \<Rightarrow> 'f line list
     \<Rightarrow> 'f line list \<times> (error + 'f pydict list)" where
  "transform_loop ops idx [] transcript out = (out, Inr transcript)"
| "transform_loop ops idx (msg # rest) transcript out =
     (case loop_body ops idx msg of
        (printed, Inl e) \<Rightarrow> (out @ printed, Inl e)
      | (printed, Inr None) \<Rightarrow> transform_loop ops (Suc idx) rest transcript (out @ printed)
      | (printed, Inr (Some entry)) \<Rightarrow>
          transform_loop ops (Suc idx) rest (transcript @ [entry]) (out @ printed))"

definition transform_vapi_transcript ::
  "'f float_ops \<Rightarrow> 'f json list \<Rightarrow> 'f line list \<times> (error + 'f pydict list)" where
  "transform_vapi_transcript ops vapi_messages =
     (case transform_loop ops 0 vapi_messages []
             [[Lit (CHR 0x0A # ''Transforming Vapi transcript...'')]] of
        (out, Inl e) \<Rightarrow> (out, Inl e)
      | (out, Inr transcript) \<Rightarrow>
          (out @ [[Lit ''Transformed '', Val (JInt (int (length transcript))), Lit '' messages'']],
           Inr transcript))"

text \<open>The result of one iteration on a message record, without the lines it prints.\<close>

definition translate :: "'f float_ops \<Rightarrow> 'f pydict \<Rightarrow> error + 'f pydict option" where
  "translate ops msg = snd (loop_body ops 0 (JObj msg))"

subsection \<open>Message records as the third-party platform sends them\<close>

text \<open>
  A record's role is recognised when the \<^verbatim>\<open>if/elif\<close> chain maps it. A record is well typed
  when each of its three payload fields is either absent or of the type the platform
  documents: the message a text (a list is sliced by the code just as well), the offset and
  the duration numbers that a float can hold.
\<close>

definition vapi_role_of :: "'f pydict \<Rightarrow> 'f json" where
  "vapi_role_of msg = dict_get msg ''role'' (JStr '''')"

definition recognised :: "'f pydict \<Rightarrow> bool" where
  "recognised msg = (vapi_role_of msg \<in> {JStr ''user'', JStr ''bot'', JStr ''system''})"

fun is_text :: "'f json \<Rightarrow> bool" where
  "is_text (JStr s) = True"
| "is_text (JList xs) = True"
| "is_text _ = False"

fun is_number :: "'f json \<Rightarrow> bool" where
  "is_number (JFloat x) = True"
| "is_number (JInt i) = (\<bar>i\<bar> < 2 ^ 1024 - 2 ^ 970)"
| "is_number (JBool b) = True"
| "is_number _ = False"

definition field_ok :: "('f json \<Rightarrow> bool) \<Rightarrow> 'f pydict \<Rightarrow> string \<Rightarrow> bool" where
  "field_ok P msg k = (case map_of msg k of None \<Rightarrow> True | Some v \<Rightarrow> P v)"

definition well_typed_message :: "'f pydict \<Rightarrow> bool" where
  "well_typed_message msg =
     (field_ok is_text msg ''message'' \<and> field_ok is_number msg ''secondsFromStart''
      \<and> field_ok is_number msg ''duration'')"

text \<open>The example input of the specification's section 8, its floats given by \<open>ops\<close>.\<close>

definition example_messages :: "'f float_ops \<Rightarrow> 'f pydict list" where
  "example_messages ops =
     [[(''role'', JStr ''user''), (''message'', JStr ''hi''),
       (''secondsFromStart'', JFloat (f_of_int ops 1)), (''duration'', JInt 500)],
      [(''role'', JStr ''bot''), (''message'', JStr ''hello''),
       (''secondsFromStart'', JFloat (f_of_int ops 2)), (''duration'', JInt 1000)],
      [(''role'', JStr ''alien''), (''message'', JStr ''?'')]]"

section \<open>The process and the network\<close>

text \<open>
  What a run of a script does to the outside is a trace of events: lines printed, HTTP
  requests sent (URL, headers, JSON payload, timeout in seconds) and sleeps. The network is a
  function from the number of requests sent so far to what the next request meets: a
  response, a timeout, or another \<^verbatim>\<open>RequestException\<close> with its message. A response has a
  status code, a text, and what \<^verbatim>\<open>response.json()\<close> gives on it: the parsed body, or the
  message of the \<^verbatim>\<open>JSONDecodeError\<close> it raises, which \<^verbatim>\<open>requests\<close> (from 2.27 on) derives
  from \<^verbatim>\<open>RequestException\<close>.
\<close>

record 'f response =
  status_code :: int
  response_text :: string
  body_json :: "string + 'f json"

datatype 'f http_outcome = Responded "'f response" | TimedOut | RequestFailed string

datatype 'f event =
    Print "'f line"
  | HttpPost "'f line" "(string \<times> string) list" "'f json" int
  | HttpGet "'f line" "(string \<times> string) list" int
  | Sleep int

record 'f world =
  trace :: "'f event list"
  calls :: nat

definition world0 :: "'f world" where
  "world0 = \<lparr> trace = [], calls = 0 \<rparr>"

definition emit :: "'f event \<Rightarrow> 'f world \<Rightarrow> 'f world" where
  "emit e w = w \<lparr> trace := trace w @ [e] \<rparr>"

definition prints :: "'f line list \<Rightarrow> 'f world \<Rightarrow> 'f world" where
  "prints ls w = w \<lparr> trace := trace w @ map Print ls \<rparr>"

definition request :: "(nat \<Rightarrow> 'f http_outcome) \<Rightarrow> 'f event \<Rightarrow> 'f world \<Rightarrow> 'f http_outcome \<times> 'f world" where
  "request env e w = (env (calls w), w \<lparr> trace := trace w @ [e], calls := Suc (calls w) \<rparr>)"

text \<open>How a process ends: \<^verbatim>\<open>main\<close> returns, \<^verbatim>\<open>sys.exit\<close> is called, or an exception escapes.\<close>

datatype exit = Returned | Exited int | Raised error

text \<open>The truth value Python gives a JSON value in \<^verbatim>\<open>if\<close>, \<^verbatim>\<open>not\<close> and \<^verbatim>\<open>or\<close>.\<close>

fun truthy :: "'f float_ops \<Rightarrow> 'f json \<Rightarrow> bool" where
  "truthy ops JNull = False"
| "truthy ops (JBool b) = b"
| "truthy ops (JInt i) = (i \<noteq> 0)"
| "truthy ops (JFloat x) = f_truthy ops x"
| "truthy ops (JStr s) = (s \<noteq> [])"
| "truthy ops (JList xs) = (xs \<noteq> [])"
| "truthy ops (JObj d) = (d \<noteq> [])"

text \<open>\<^verbatim>\<open>v.get(key, default)\<close> on any value: only a dictionary has the method.\<close>

fun py_get :: "'f json \<Rightarrow> string \<Rightarrow> 'f json \<Rightarrow> error + 'f json" where
  "py_get (JObj d) k dflt = Inr (dict_get d k dflt)"
| "py_get _ k dflt = Inl AttributeError"

section \<open>The Submission Client and the Status Poller: launch_run.py\<close>

record launch_config =
  COVAL_API_KEY :: string
  AGENT_ID :: string
  PERSONA_ID :: string
  TEST_SET_ID :: string
  METRIC_IDS :: "string list"
  ITERATION_COUNT :: int
  CONCURRENCY :: int

definition API_TIMEOUT :: int where
  "API_TIMEOUT = 30"

definition RUNS_API_URL :: string where
  "RUNS_API_URL = ''https://api.coval.dev/v1/runs''"

definition POLL_INTERVAL_SECONDS :: int where
  "POLL_INTERVAL_SECONDS = 5"

definition api_headers :: "string \<Rightarrow> (string \<times> string) list" where
  "api_headers key = [(''X-API-Key'', key), (''Content-Type'', ''application/json'')]"

text \<open>
  The body of the \<^verbatim>\<open>try\<close> statement of \<^verbatim>\<open>launch_run\<close> after the request, and its two
  handlers: the lines printed and the value returned, or the exception that no handler
  catches.
\<close>

definition launch_run_outcome :: "'f http_outcome \<Rightarrow> 'f line list \<times> (error + 'f json)" where
  "launch_run_outcome oc =
     (case oc of
        Responded response \<Rightarrow>
          if status_code response = 200 then
            (case body_json response of
               Inl e \<Rightarrow> ([[Lit (CHR 0x0A # ''Error launching run: ''), Val (JStr e)]], Inr JNull)
             | Inr result \<Rightarrow>
                 (case py_get result ''run'' (JObj []) of
                    Inl err \<Rightarrow> ([], Inl err)
                  | Inr run \<Rightarrow>
                      (case py_get run ''run_id'' JNull of
                         Inl err \<Rightarrow> ([], Inl err)
                       | Inr run_id \<Rightarrow>
                           (case py_get run ''status'' JNull of
                              Inl err \<Rightarrow> ([], Inl err)
                            | Inr status \<Rightarrow>
                                (case py_get run ''create_time'' JNull of
                                   Inl err \<Rightarrow> ([], Inl err)
                                 | Inr create_time \<Rightarrow>
                                     ([[Lit (CHR 0x0A # ''Run launched successfully'')],
                                       [Lit ''Run ID: '', Val run_id],
                                       [Lit ''Status: '', Val status],
                                       [Lit ''Created: '', Val create_time],
                                       [Lit ''View at: https://app.coval.dev/runs/'', Val run_id]],
                                      Inr run_id))))))
          else
            ([[Lit (CHR 0x0A # ''Failed to launch run: ''), Val (JInt (status_code response))],
              [Lit ''Response: '', Val (JStr (response_text response))]], Inr JNull)
      | TimedOut \<Rightarrow>
          ([[Lit (CHR 0x0A # ''Error: Request timed out after ''), Val (JInt API_TIMEOUT),
             Lit '' seconds'']], Inr JNull)
      | RequestFailed e \<Rightarrow>
          ([[Lit (CHR 0x0A # ''Error launching run: ''), Val (JStr e)]], Inr JNull))"

definition launch_run ::
  "launch_config \<Rightarrow> (nat \<Rightarrow> 'f http_outcome) \<Rightarrow> string \<Rightarrow> string \<Rightarrow> string \<Rightarrow> string list
     \<Rightarrow> int \<Rightarrow> int \<Rightarrow> 'f world \<Rightarrow> (error + 'f json) \<times> 'f world" where
  "launch_run cfg env agent_id persona_id test_set_id metric_ids iteration_count concurrency w =
     (let w1 = prints [[Lit ''Launching simulation run...''],
                       [Lit ''Agent ID: '', Val (JStr agent_id)],
                       [Lit ''Persona ID: '', Val (JStr persona_id)],
                       [Lit ''Test Set ID: '', Val (JStr test_set_id)]] w;
          payload = [(''agent_id'', JStr agent_id),
                     (''persona_id'', JStr persona_id),
                     (''test_set_id'', JStr test_set_id),
                     (''options'', JObj [(''iteration_count'', JInt iteration_count),
                                         (''concurrency'', JInt concurrency)])]
                    @ (if metric_ids \<noteq> [] \<and> length metric_ids > 0
                       then [(''metric_ids'', JList (map JStr metric_ids))] else []);
          headers = api_headers (COVAL_API_KEY cfg);
          (oc, w2) = request env (HttpPost [Lit RUNS_API_URL] headers (JObj payload) API_TIMEOUT) w1;
          (printed, r) = launch_run_outcome oc
      in (r, prints printed w2))"

text \<open>\<^verbatim>\<open>get_run_status\<close>, in the same two parts.\<close>

definition get_run_status_outcome :: "'f http_outcome \<Rightarrow> 'f line list \<times> (error + 'f json)" where
  "get_run_status_outcome oc =
     (case oc of
        Responded response \<Rightarrow>
          if status_code response = 200 then
            (case body_json response of
               Inl e \<Rightarrow> ([[Lit ''Error getting run status: '', Val (JStr e)]], Inr JNull)
             | Inr result \<Rightarrow>
                 (case py_get result ''run'' (JObj []) of
                    Inl err \<Rightarrow> ([], Inl err)
                  | Inr run \<Rightarrow>
                      (case py_get run ''status'' JNull of
                         Inl err \<Rightarrow> ([], Inl err)
                       | Inr status \<Rightarrow> ([], Inr status))))
          else ([[Lit ''Failed to get run status: '', Val (JInt (status_code response))]], Inr JNull)
      | TimedOut \<Rightarrow>
          ([[Lit ''Error: Request timed out after '', Val (JInt API_TIMEOUT), Lit '' seconds'']],
           Inr JNull)
      | RequestFailed e \<Rightarrow> ([[Lit ''Error getting run status: '', Val (JStr e)]], Inr JNull))"

definition get_run_status ::
  "launch_config \<Rightarrow> (nat \<Rightarrow> 'f http_outcome) \<Rightarrow> 'f json \<Rightarrow> 'f world \<Rightarrow> (error + 'f json) \<times> 'f world" where
  "get_run_status cfg env run_id w =
     (let headers = api_headers (COVAL_API_KEY cfg);
          (oc, w1) = request env (HttpGet [Lit RUNS_API_URL, Lit ''/'', Val run_id] headers API_TIMEOUT) w;
          (printed, r) = get_run_status_outcome oc
      in (r, prints printed w1))"

text \<open>
  The \<^verbatim>\<open>while True\<close> loop of \<^verbatim>\<open>main\<close>. It has no bound on its iterations: \<open>None\<close> is the
  run that polls forever.
\<close>

definition terminal_statuses :: "'f json list" where
  "terminal_statuses = [JStr ''COMPLETED'', JStr ''FAILED'', JStr ''CANCELLED'']"

partial_function (option) monitoring_loop ::
  "'f float_ops \<Rightarrow> launch_config \<Rightarrow> (nat \<Rightarrow> 'f http_outcome) \<Rightarrow> 'f json \<Rightarrow> 'f world
     \<Rightarrow> (exit \<times> 'f world) option" where
  "monitoring_loop ops cfg env run_id w =
     (case get_run_status cfg env run_id w of
        (Inl err, w1) \<Rightarrow> Some (Raised err, w1)
      | (Inr status, w1) \<Rightarrow>
          if \<not> truthy ops status then Some (Returned, w1)
          else
            (let w2 = prints [[Lit ''Current status: '', Val status]] w1
             in if status \<in> set terminal_statuses
                then Some (Returned,
                           prints [[Lit (CHR 0x0A # ''Run finished with status: ''), Val status]] w2)
                else monitoring_loop ops cfg env run_id (emit (Sleep POLL_INTERVAL_SECONDS) w2)))"

declare monitoring_loop.simps [code]

definition main_launch_run ::
  "'f float_ops \<Rightarrow> launch_config \<Rightarrow> (nat \<Rightarrow> 'f http_outcome) \<Rightarrow> (exit \<times> 'f world) option" where
  "main_launch_run ops cfg env =
     (if COVAL_API_KEY cfg = ''your_coval_api_key'' then
        Some (Exited 1, prints [[Lit ''Error: Please update COVAL_API_KEY'']] world0)
      else if AGENT_ID cfg = ''your_agent_id'' then
        Some (Exited 1, prints [[Lit ''Error: Please update AGENT_ID'']] world0)
      else if PERSONA_ID cfg = ''your_persona_id'' then
        Some (Exited 1, prints [[Lit ''Error: Please update PERSONA_ID'']] world0)
      else if TEST_SET_ID cfg = ''your_test_set_id'' then
        Some (Exited 1, prints [[Lit ''Error: Please update TEST_SET_ID'']] world0)
      else
        (case launch_run cfg env (AGENT_ID cfg) (PERSONA_ID cfg) (TEST_SET_ID cfg) (METRIC_IDS cfg)
                (ITERATION_COUNT cfg) (CONCURRENCY cfg) world0 of
           (Inl err, w) \<Rightarrow> Some (Raised err, w)
         | (Inr run_id, w) \<Rightarrow>
             if \<not> truthy ops run_id then
               Some (Exited 1, prints [[Lit ''Failed to launch run'']] w)
             else
               monitoring_loop ops cfg env run_id
                 (prints [[Lit (CHR 0x0A # ''Monitoring run status...'')]] w)))"

section \<open>The upload script: vapi_upload.py\<close>

text \<open>
  The configuration constants of the module (two of them have the names of constants of
  launch_run.py and carry a suffix here) and the clock, read only when the call has neither
  a start nor a creation time.
\<close>

record vapi_config =
  VAPI_API_KEY :: string
  COVAL_API_KEY_vapi :: string
  CALL_ID :: string
  METRIC_IDS_vapi :: "string list"

definition VAPI_API_URL :: string where
  "VAPI_API_URL = ''https://api.vapi.ai/call''"

definition COVAL_API_URL :: string where
  "COVAL_API_URL = ''https://api.coval.dev/v1/conversations:submit''"

text \<open>\<^verbatim>\<open>len(v)\<close>, \<^verbatim>\<open>a or b\<close>, and the elements a \<^verbatim>\<open>for\<close> loop visits.\<close>

fun py_len :: "'f json \<Rightarrow> error + nat" where
  "py_len (JStr s) = Inr (length s)"
| "py_len (JList xs) = Inr (length xs)"
| "py_len (JObj d) = Inr (length d)"
| "py_len _ = Inl TypeError"

definition py_or :: "'f float_ops \<Rightarrow> 'f json \<Rightarrow> 'f json \<Rightarrow> 'f json" where
  "py_or ops a b = (if truthy ops a then a else b)"

fun py_iter :: "'f json \<Rightarrow> error + 'f json list" where
  "py_iter (JList xs) = Inr xs"
| "py_iter (JStr s) = Inr (map (\<lambda>c. JStr [c]) s)"
| "py_iter (JObj d) = Inr (map (\<lambda>kv. JStr (fst kv)) d)"
| "py_iter _ = Inl TypeError"

definition get_vapi_call_outcome :: "'f http_outcome \<Rightarrow> 'f line list \<times> (error + 'f json)" where
  "get_vapi_call_outcome oc =
     (case oc of
        Responded response \<Rightarrow>
          if status_code response = 200 then
            (case body_json response of
               Inl e \<Rightarrow> ([[Lit ''Error fetching Vapi call: '', Val (JStr e)]], Inr JNull)
             | Inr call_data \<Rightarrow>
                 (case py_get call_data ''status'' JNull of
                    Inl err \<Rightarrow> ([[Lit ''Call data retrieved successfully'']], Inl err)
                  | Inr status \<Rightarrow>
                      (case py_get call_data ''messages'' (JList []) of
                         Inl err \<Rightarrow>
                           ([[Lit ''Call data retrieved successfully''],
                             [Lit ''Status: '', Val status]], Inl err)
                       | Inr messages \<Rightarrow>
                           (case py_len messages of
                              Inl err \<Rightarrow>
                                ([[Lit ''Call data retrieved successfully''],
                                  [Lit ''Status: '', Val status]], Inl err)
                            | Inr n \<Rightarrow>
                                ([[Lit ''Call data retrieved successfully''],
                                  [Lit ''Status: '', Val status],
                                  [Lit ''Messages: '', Val (JInt (int n)), Lit '' found'']],
                                 Inr call_data)))))
          else
            ([[Lit ''Failed to fetch Vapi call: '', Val (JInt (status_code response))],
              [Lit ''Response: '', Val (JStr (response_text response))]], Inr JNull)
      | TimedOut \<Rightarrow>
          ([[Lit ''Error: Request timed out after '', Val (JInt API_TIMEOUT), Lit '' seconds'']],
           Inr JNull)
      | RequestFailed e \<Rightarrow> ([[Lit ''Error fetching Vapi call: '', Val (JStr e)]], Inr JNull))"

definition get_vapi_call ::
  "vapi_config \<Rightarrow> (nat \<Rightarrow> 'f http_outcome) \<Rightarrow> string \<Rightarrow> 'f world \<Rightarrow> (error + 'f json) \<times> 'f world" where
  "get_vapi_call cfg env call_id w =
     (let w1 = prints [[Lit ''Fetching Vapi call details for ID: '', Val (JStr call_id)]] w;
          headers = [(''Authorization'', ''Bearer '' @ VAPI_API_KEY cfg),
                     (''Content-Type'', ''application/json'')];
          (oc, w2) = request env (HttpGet [Lit VAPI_API_URL, Lit ''/'', Val (JStr call_id)] headers
                                    API_TIMEOUT) w1;
          (printed, r) = get_vapi_call_outcome oc
      in (r, prints printed w2))"

definition upload_to_coval_outcome :: "'f http_outcome \<Rightarrow> 'f line list \<times> (error + 'f json)" where
  "upload_to_coval_outcome oc =
     (case oc of
        Responded response \<Rightarrow>
          if status_code response = 200 then
            (case body_json response of
               Inl e \<Rightarrow> ([[Lit ''Error uploading to Coval: '', Val (JStr e)]], Inr JNull)
             | Inr result \<Rightarrow>
                 (case py_get result ''conversation'' (JObj []) of
                    Inl err \<Rightarrow> ([], Inl err)
                  | Inr conversation \<Rightarrow>
                      (case py_get conversation ''conversation_id'' JNull of
                         Inl err \<Rightarrow> ([], Inl err)
                       | Inr conversation_id \<Rightarrow>
                           (case py_get conversation ''status'' JNull of
                              Inl err \<Rightarrow> ([], Inl err)
                            | Inr status \<Rightarrow>
                                ([[Lit ''Successfully uploaded to Coval''],
                                  [Lit ''Conversation ID: '', Val conversation_id],
                                  [Lit ''Status: '', Val status],
                                  [Lit ''View at: https://app.coval.dev/conversations/'',
                                   Val conversation_id]],
                                 Inr result)))))
          else
            ([[Lit ''Failed to upload to Coval: '', Val (JInt (status_code response))],
              [Lit ''Response: '', Val (JStr (response_text response))]], Inr JNull)
      | TimedOut \<Rightarrow>
          ([[Lit ''Error: Request timed out after '', Val (JInt API_TIMEOUT), Lit '' seconds'']],
           Inr JNull)
      | RequestFailed e \<Rightarrow> ([[Lit ''Error uploading to Coval: '', Val (JStr e)]], Inr JNull))"

definition upload_to_coval ::
  "'f float_ops \<Rightarrow> vapi_config \<Rightarrow> string \<Rightarrow> (nat \<Rightarrow> 'f http_outcome) \<Rightarrow> 'f json \<Rightarrow> 'f pydict list
     \<Rightarrow> 'f world \<Rightarrow> (error + 'f json) \<times> 'f world" where
  "upload_to_coval ops cfg now env call_data transcript w =
     (let w1 = prints [[Lit (CHR 0x0A # ''Uploading to Coval...'')]] w
      in case call_data of
           JObj cd \<Rightarrow>
             (let audio_url = py_or ops (dict_get cd ''stereoRecordingUrl'' JNull)
                                        (dict_get cd ''recordingUrl'' JNull);
                  occurred_at = py_or ops (dict_get cd ''startedAt'' JNull)
                                  (py_or ops (dict_get cd ''createdAt'' JNull) (JStr now));
                  metadata = [(''platform'', JStr ''vapi''),
                              (''vapi_call_id'', dict_get cd ''id'' JNull),
                              (''status'', dict_get cd ''status'' JNull),
                              (''type'', dict_get cd ''type'' JNull),
                              (''assistant_id'', dict_get cd ''assistantId'' JNull)];
                  payload = [(''transcript'', JList (map JObj transcript)),
                             (''external_conversation_id'', dict_get cd ''id'' JNull),
                             (''occurred_at'', occurred_at)]
              in case (if truthy ops audio_url
                       then (case py_slice_to 60 audio_url of
                               Inl err \<Rightarrow> Inl err
                             | Inr shown \<Rightarrow>
                                 Inr ([(''audio_url'', audio_url)],
                                      [[Lit ''Audio URL: '', Val shown, Lit ''...''],
                                       [Lit ''Transcript: '', Val (JInt (int (length transcript))),
                                        Lit '' messages with timing'']]))
                       else Inr ([], [])) of
                   Inl err \<Rightarrow> (Inl err, w1)
                 | Inr (audio, printed_audio) \<Rightarrow>
                     (let w2 = prints printed_audio w1
                      in case (if dict_has cd ''customer''
                               then (case py_get (dict_get cd ''customer'' JNull) ''number'' JNull of
                                       Inl err \<Rightarrow> Inl err
                                     | Inr number \<Rightarrow> Inr [(''customer_number'', number)])
                               else Inr []) of
                           Inl err \<Rightarrow> (Inl err, w2)
                         | Inr customer \<Rightarrow>
                             (let ended = (if dict_has cd ''endedReason''
                                           then [(''ended_reason'', dict_get cd ''endedReason'' JNull)]
                                           else []);
                                  metrics = (if METRIC_IDS_vapi cfg \<noteq> []
                                             then [(''metrics'', JList (map JStr (METRIC_IDS_vapi cfg)))]
                                             else []);
                                  body = payload @ [(''metadata'', JObj (metadata @ customer @ ended))]
                                         @ audio @ metrics;
                                  headers = api_headers (COVAL_API_KEY_vapi cfg);
                                  (oc, w3) = request env
                                     (HttpPost [Lit COVAL_API_URL] headers (JObj body) API_TIMEOUT) w2;
                                  (printed, r) = upload_to_coval_outcome oc
                              in (r, prints printed w3))))
         | _ \<Rightarrow> (Inl AttributeError, w1))"

definition main_vapi_upload ::
  "'f float_ops \<Rightarrow> vapi_config \<Rightarrow> string \<Rightarrow> (nat \<Rightarrow> 'f http_outcome) \<Rightarrow> exit \<times> 'f world" where
  "main_vapi_upload ops cfg now env =
     (if VAPI_API_KEY cfg = ''your_vapi_api_key'' then
        (Exited 1, prints [[Lit ''Error: Please update VAPI_API_KEY in the configuration section'']] world0)
      else if COVAL_API_KEY_vapi cfg = ''your_coval_api_key'' then
        (Exited 1, prints [[Lit ''Error: Please update COVAL_API_KEY in the configuration section'']] world0)
      else if CALL_ID cfg = ''your_vapi_call_id'' then
        (Exited 1, prints [[Lit ''Error: Please update CALL_ID in the configuration section'']] world0)
      else
        (case get_vapi_call cfg env (CALL_ID cfg) world0 of
           (Inl err, w) \<Rightarrow> (Raised err, w)
         | (Inr call_data, w) \<Rightarrow>
             if \<not> truthy ops call_data then (Exited 1, w)
             else
               (case py_get call_data ''messages'' (JList []) of
                  Inl err \<Rightarrow> (Raised err, w)
                | Inr vapi_messages \<Rightarrow>
                    (case (if \<not> truthy ops vapi_messages
                           then ([[Lit ''Warning: No messages found in Vapi call'']], Inr [])
                           else (case py_iter vapi_messages of
                                   Inl err \<Rightarrow>
                                     ([[Lit (CHR 0x0A # ''Transforming Vapi transcript...'')]], Inl err)
                                 | Inr msgs \<Rightarrow> transform_vapi_transcript ops msgs)) of
                       (printed, Inl err) \<Rightarrow> (Raised err, prints printed w)
                     | (printed, Inr transcript) \<Rightarrow>
                         (case upload_to_coval ops cfg now env call_data transcript (prints printed w) of
                            (Inl err, w') \<Rightarrow> (Raised err, w')
                          | (Inr result, w') \<Rightarrow>
                              if \<not> truthy ops result
                              then (Exited 1, prints [[Lit ''Upload failed'']] w')
                              else (Returned, w'))))))"

section \<open>Notions used to state the properties\<close>

subsection \<open>Notions used to state the mapper's properties\<close>

text \<open>
  The transcript that the loop builds, as a function of the messages alone: the entry of
  each iteration in order, nothing for a skipped message, and the first exception instead of
  a transcript.
\<close>

fun collect :: "'f float_ops \<Rightarrow> 'f json list \<Rightarrow> error + 'f pydict list" where
  "collect ops [] = Inr []"
| "collect ops (m # ms) =
     (case snd (loop_body ops 0 m) of
        Inl e \<Rightarrow> Inl e
      | Inr None \<Rightarrow> collect ops ms
      | Inr (Some entry) \<Rightarrow> (case collect ops ms of Inl e \<Rightarrow> Inl e | Inr es \<Rightarrow> Inr (entry # es)))"

text \<open>
  The role table as the specification words it: \<^verbatim>\<open>"user"\<close> to \<^verbatim>\<open>"assistant"\<close>, \<^verbatim>\<open>"bot"\<close> to
  \<^verbatim>\<open>"user"\<close>, \<^verbatim>\<open>"system"\<close> to \<^verbatim>\<open>"system"\<close>.
\<close>

definition role_reversal_table :: "(string \<times> string) list" where
  "role_reversal_table = [(''user'', ''assistant''), (''bot'', ''user''), (''system'', ''system'')]"

text \<open>
  What every entry of a transcript looks like when it is read back as a message: its role
  is one of the three target roles, and it has none of the keys the mapper reads its payload
  from.
\<close>

definition entry_with_role :: "'f pydict \<Rightarrow> string \<Rightarrow> bool" where
  "entry_with_role e r =
     (map_of e ''role'' = Some (JStr r) \<and> r \<in> {''assistant'', ''user'', ''system''}
      \<and> map_of e ''message'' = None \<and> map_of e ''secondsFromStart'' = None
      \<and> map_of e ''duration'' = None)"

definition not_assistant :: "'f pydict \<Rightarrow> bool" where
  "not_assistant e = (map_of e ''role'' \<noteq> Some (JStr ''assistant''))"








subsection \<open>Notions used to state the properties of the clients\<close>

text \<open>
  A request fails when it times out, raises another request exception, or is answered
  with a status other than 200.
\<close>

fun request_failed :: "'f http_outcome \<Rightarrow> bool" where
  "request_failed (Responded response) = (status_code response \<noteq> 200)"
| "request_failed TimedOut = True"
| "request_failed (RequestFailed e) = True"

text \<open>The number of HTTP requests in a trace.\<close>

fun is_request :: "'f event \<Rightarrow> bool" where
  "is_request (HttpPost url headers payload timeout) = True"
| "is_request (HttpGet url headers timeout) = True"
| "is_request _ = False"

definition http_requests :: "'f event list \<Rightarrow> nat" where
  "http_requests es = length (filter is_request es)"

text \<open>
  The request of one status query, and the events of the iterations that received the
  statuses \<open>ss\<close> and went on: the query, the status printed, the sleep.
\<close>

definition status_query :: "launch_config \<Rightarrow> 'f json \<Rightarrow> 'f event" where
  "status_query cfg run_id =
     HttpGet [Lit RUNS_API_URL, Lit ''/'', Val run_id] (api_headers (COVAL_API_KEY cfg)) API_TIMEOUT"

fun polled :: "launch_config \<Rightarrow> 'f json \<Rightarrow> 'f json list \<Rightarrow> 'f event list" where
  "polled cfg run_id [] = []"
| "polled cfg run_id (s # ss) =
     [status_query cfg run_id, Print [Lit ''Current status: '', Val s], Sleep POLL_INTERVAL_SECONDS]
     @ polled cfg run_id ss"

text \<open>
  Mock networks and a filled-in configuration for the examples: the endpoint that answers
  200 with a run of identifier \<^verbatim>\<open>"r1"\<close> in a given status, a script of outcomes for the
  successive requests (a timeout once the script is over), and the endpoint that always
  gives the same outcome.
\<close>

definition run_response :: "string \<Rightarrow> 'f http_outcome" where
  "run_response s =
     Responded \<lparr> status_code = 200, response_text = '''',
                 body_json = Inr (JObj [(''run'', JObj [(''run_id'', JStr ''r1''), (''status'', JStr s)])]) \<rparr>"

definition scripted :: "'f http_outcome list \<Rightarrow> nat \<Rightarrow> 'f http_outcome" where
  "scripted ocs n = (if n < length ocs then ocs ! n else TimedOut)"

definition always :: "'f http_outcome \<Rightarrow> nat \<Rightarrow> 'f http_outcome" where
  "always oc n = oc"

definition example_config :: launch_config where
  "example_config = \<lparr> COVAL_API_KEY = ''key'', AGENT_ID = ''agent'', PERSONA_ID = ''persona'',
     TEST_SET_ID = ''testset'', METRIC_IDS = [], ITERATION_COUNT = 1, CONCURRENCY = 1 \<rparr>"

definition example_vapi_config :: vapi_config where
  "example_vapi_config = \<lparr> VAPI_API_KEY = ''vapi-key'', COVAL_API_KEY_vapi = ''key'',
     CALL_ID = ''call-1'', METRIC_IDS_vapi = [] \<rparr>"

section \<open>Properties of the Transcript Mapper\<close>

lemma loop_body_snd_idx: "snd (loop_body ops idx m) = snd (loop_body ops 0 m)"
  by (cases m) (simp_all add: Let_def split: option.splits sum.splits)

lemma transform_loop_snd:
  "snd (transform_loop ops idx msgs tr out) =
     (case collect ops msgs of Inl e \<Rightarrow> Inl e | Inr es \<Rightarrow> Inr (tr @ es))"
proof (induction msgs arbitrary: idx tr out)
  case Nil
  show ?case by simp
next
  case (Cons m ms)
  obtain printed r where lb: "loop_body ops idx m = (printed, r)"
    by (cases "loop_body ops idx m")
  then have r: "snd (loop_body ops 0 m) = r"
    using loop_body_snd_idx [of ops idx m] by simp
  show ?case
  proof (cases r)
    case (Inl e)
    with lb r show ?thesis by simp
  next
    case (Inr res)
    show ?thesis
    proof (cases res)
      case None
      with Inr lb r Cons.IH show ?thesis by simp
    next
      case (Some entry)
      with Inr lb r Cons.IH [of "Suc idx" "tr @ [entry]" "out @ printed"] show ?thesis
        by (simp split: sum.splits)
    qed
  qed
qed

lemma transform_snd: "snd (transform_vapi_transcript ops msgs) = collect ops msgs"
proof -
  obtain out r where tl: "transform_loop ops 0 msgs [] [[Lit (CHR 0x0A # ''Transforming Vapi transcript...'')]] = (out, r)"
    by (cases "transform_loop ops 0 msgs [] [[Lit (CHR 0x0A # ''Transforming Vapi transcript...'')]]")
  then have "r = collect ops msgs"
    using transform_loop_snd [of ops 0 msgs "[]" "[[Lit (CHR 0x0A # ''Transforming Vapi transcript...'')]]"]
    by (cases "collect ops msgs") simp_all
  with tl show ?thesis
    by (simp add: transform_vapi_transcript_def split: sum.splits)
qed

lemma translate_unrecognised:
  "\<not> recognised msg \<Longrightarrow> translate ops msg = Inr None"
  by (simp add: translate_def recognised_def vapi_role_of_def coval_role_of_def Let_def)

lemma as_float_number: "is_number v \<Longrightarrow> \<exists>x. as_float ops v = Inr x"
  by (cases v) (simp_all add: int_to_float_def)

lemma slice_text: "is_text v \<Longrightarrow> \<exists>p. py_slice_to n v = Inr p"
  by (cases v) simp_all

lemma field_ok_get: "field_ok P msg k \<Longrightarrow> P dflt \<Longrightarrow> P (dict_get msg k dflt)"
  by (simp add: field_ok_def dict_get_def split: option.splits)

lemma translate_recognised:
  assumes "recognised msg" "well_typed_message msg"
  shows "\<exists>e. translate ops msg = Inr (Some e)"
proof -
  from assms(1) obtain r where r: "coval_role_of (dict_get msg ''role'' (JStr '''')) = Some r"
    by (auto simp: recognised_def vapi_role_of_def coval_role_of_def)
  from assms(2) have "is_number (dict_get msg ''duration'' (JInt 0))"
    by (simp add: well_typed_message_def field_ok_get)
  then obtain d where d: "py_truediv ops (dict_get msg ''duration'' (JInt 0)) (f_of_int ops 1000) = Inr d"
    using as_float_number [of _ ops] by (fastforce simp: py_truediv_def)
  from assms(2) have "is_number (dict_get msg ''secondsFromStart'' (JFloat (f_of_int ops 0)))"
    by (simp add: well_typed_message_def field_ok_get)
  then obtain x where x: "py_add ops (dict_get msg ''secondsFromStart'' (JFloat (f_of_int ops 0))) d = Inr x"
    using as_float_number [of _ ops] by (fastforce simp: py_add_def)
  from assms(2) have "is_text (dict_get msg ''message'' (JStr ''''))"
    by (simp add: well_typed_message_def field_ok_get)
  then obtain p where p: "py_slice_to 50 (dict_get msg ''message'' (JStr '''')) = Inr p"
    using slice_text by blast
  show ?thesis
    by (simp add: translate_def Let_def r d x p)
qed

lemma translate_eq_collect1: "snd (loop_body ops 0 (JObj m)) = translate ops m"
  by (simp add: translate_def)

lemma collect_filter_recognised:
  "collect ops (map JObj (filter recognised recs)) = collect ops (map JObj recs)"
  by (induction recs) (simp_all add: translate_eq_collect1 translate_unrecognised del: loop_body.simps split: sum.splits option.splits)

lemma collect_well_typed:
  "\<forall>m\<in>set recs. recognised m \<longrightarrow> well_typed_message m \<Longrightarrow>
   \<exists>t. collect ops (map JObj recs) = Inr t
       \<and> list_all2 (\<lambda>m e. translate ops m = Inr (Some e)) (filter recognised recs) t"
proof (induction recs)
  case Nil
  show ?case by simp
next
  case (Cons m recs)
  then obtain t where t: "collect ops (map JObj recs) = Inr t"
    "list_all2 (\<lambda>m e. translate ops m = Inr (Some e)) (filter recognised recs) t"
    by auto
  show ?case
  proof (cases "recognised m")
    case True
    with Cons.prems obtain e where "translate ops m = Inr (Some e)"
      using translate_recognised [of m ops] by auto
    with True t show ?thesis by (simp add: translate_eq_collect1 del: loop_body.simps)
  next
    case False
    with t show ?thesis by (simp add: translate_eq_collect1 translate_unrecognised del: loop_body.simps)
  qed
qed

lemma translate_entry_role:
  assumes "translate ops m = Inr (Some e)"
  shows "\<exists>r. coval_role_of (vapi_role_of m) = Some r \<and> entry_with_role e r"
  using assms
  by (auto simp: translate_def vapi_role_of_def Let_def entry_with_role_def coval_role_of_def
           split: option.splits sum.splits if_splits)

lemma translate_entry_timing:
  assumes "translate ops m = Inr (Some e)"
  shows "map_of e ''start_time'' = Some (dict_get m ''secondsFromStart'' (JFloat (f_of_int ops 0)))
       \<and> (\<exists>d x. py_truediv ops (dict_get m ''duration'' (JInt 0)) (f_of_int ops 1000) = Inr d
               \<and> py_add ops (dict_get m ''secondsFromStart'' (JFloat (f_of_int ops 0))) d = Inr x
               \<and> map_of e ''end_time'' = Some (JFloat x))
       \<and> map_of e ''content'' = Some (dict_get m ''message'' (JStr ''''))"
  using assms
  by (auto simp: translate_def Let_def split: option.splits sum.splits if_splits)

lemma coval_role_of_table:
  "coval_role_of v = Some r' \<Longrightarrow> \<exists>r. v = JStr r \<and> map_of role_reversal_table r = Some r'"
  unfolding coval_role_of_def role_reversal_table_def
  by (cases "v = JStr ''user''"; cases "v = JStr ''bot''"; cases "v = JStr ''system''") auto

lemma example_result:
  "snd (transform_vapi_transcript ops (map JObj (example_messages ops))) =
     Inr [[(''role'', JStr ''assistant''), (''content'', JStr ''hi''),
           (''start_time'', JFloat (f_of_int ops 1)),
           (''end_time'', JFloat (f_add ops (f_of_int ops 1) (f_div ops (f_of_int ops 500) (f_of_int ops 1000))))],
          [(''role'', JStr ''user''), (''content'', JStr ''hello''),
           (''start_time'', JFloat (f_of_int ops 2)),
           (''end_time'', JFloat (f_add ops (f_of_int ops 2) (f_div ops (f_of_int ops 1000) (f_of_int ops 1000))))]]"
  by (simp add: transform_snd example_messages_def Let_def dict_get_def dict_has_def
        coval_role_of_def py_truediv_def py_add_def int_to_float_def)

lemma roles_general:
  assumes "\<forall>m\<in>set recs. recognised m \<longrightarrow> well_typed_message m"
  shows "\<exists>t. snd (transform_vapi_transcript ops (map JObj recs)) = Inr t \<and>
           list_all2 (\<lambda>m e. \<exists>r r'. vapi_role_of m = JStr r \<and> map_of role_reversal_table r = Some r'
                               \<and> map_of e ''role'' = Some (JStr r'))
                     (filter recognised recs) t"
proof -
  from collect_well_typed [OF assms, of ops] obtain t where
    t: "collect ops (map JObj recs) = Inr t"
       "list_all2 (\<lambda>m e. translate ops m = Inr (Some e)) (filter recognised recs) t"
    by blast
  have "list_all2 (\<lambda>m e. \<exists>r r'. vapi_role_of m = JStr r \<and> map_of role_reversal_table r = Some r'
                               \<and> map_of e ''role'' = Some (JStr r'))
                     (filter recognised recs) t"
  proof (rule list_all2_mono [OF t(2)])
    fix m e assume "translate ops m = Inr (Some e)"
    then obtain r' where "coval_role_of (vapi_role_of m) = Some r'" "entry_with_role e r'"
      using translate_entry_role by blast
    then show "\<exists>r r'. vapi_role_of m = JStr r \<and> map_of role_reversal_table r = Some r'
                               \<and> map_of e ''role'' = Some (JStr r')"
      using coval_role_of_table [of "vapi_role_of m" r'] by (auto simp: entry_with_role_def)
  qed
  with t(1) show ?thesis by (simp add: transform_snd)
qed

lemma timing_general:
  assumes "\<forall>m\<in>set recs. recognised m \<longrightarrow> well_typed_message m"
  shows "\<exists>t. snd (transform_vapi_transcript ops (map JObj recs)) = Inr t \<and>
           list_all2 (\<lambda>m e.
               map_of e ''start_time'' = Some (dict_get m ''secondsFromStart'' (JFloat (f_of_int ops 0)))
             \<and> (\<exists>d x. py_truediv ops (dict_get m ''duration'' (JInt 0)) (f_of_int ops 1000) = Inr d
                  \<and> py_add ops (dict_get m ''secondsFromStart'' (JFloat (f_of_int ops 0))) d = Inr x
                  \<and> map_of e ''end_time'' = Some (JFloat x)))
             (filter recognised recs) t"
proof -
  from collect_well_typed [OF assms, of ops] obtain t where
    t: "collect ops (map JObj recs) = Inr t"
       "list_all2 (\<lambda>m e. translate ops m = Inr (Some e)) (filter recognised recs) t"
    by blast
  from t(2) have "list_all2 (\<lambda>m e.
               map_of e ''start_time'' = Some (dict_get m ''secondsFromStart'' (JFloat (f_of_int ops 0)))
             \<and> (\<exists>d x. py_truediv ops (dict_get m ''duration'' (JInt 0)) (f_of_int ops 1000) = Inr d
                  \<and> py_add ops (dict_get m ''secondsFromStart'' (JFloat (f_of_int ops 0))) d = Inr x
                  \<and> map_of e ''end_time'' = Some (JFloat x)))
             (filter recognised recs) t"
    by (rule list_all2_mono) (use translate_entry_timing in blast)
  with t(1) show ?thesis by (simp add: transform_snd)
qed

lemma filter_mapping:
  "snd (transform_vapi_transcript ops (map JObj recs)) =
     snd (transform_vapi_transcript ops (map JObj (filter recognised recs)))
   \<and> ((\<forall>m\<in>set recs. recognised m \<longrightarrow> well_typed_message m) \<longrightarrow>
        (\<exists>t. snd (transform_vapi_transcript ops (map JObj recs)) = Inr t
           \<and> length t \<le> length recs
           \<and> list_all2 (\<lambda>m e. translate ops m = Inr (Some e)) (filter recognised recs) t))"
proof (intro conjI impI)
  show "snd (transform_vapi_transcript ops (map JObj recs)) =
     snd (transform_vapi_transcript ops (map JObj (filter recognised recs)))"
    by (simp add: transform_snd collect_filter_recognised)
next
  assume wt: "\<forall>m\<in>set recs. recognised m \<longrightarrow> well_typed_message m"
  from collect_well_typed [OF wt, of ops] obtain t where
    t: "collect ops (map JObj recs) = Inr t"
       "list_all2 (\<lambda>m e. translate ops m = Inr (Some e)) (filter recognised recs) t"
    by blast
  from t(2) have "length t = length (filter recognised recs)"
    by (simp add: list_all2_lengthD)
  then have "length t \<le> length recs" by simp
  with t show "\<exists>t. snd (transform_vapi_transcript ops (map JObj recs)) = Inr t
           \<and> length t \<le> length recs
           \<and> list_all2 (\<lambda>m e. translate ops m = Inr (Some e)) (filter recognised recs) t"
    by (simp add: transform_snd)
qed

lemma translate_entry_assistant:
  "entry_with_role e ''assistant'' \<Longrightarrow> translate ops e = Inr None"
  by (simp add: translate_def entry_with_role_def dict_get_def coval_role_of_def Let_def)

lemma translate_entry_other:
  assumes "entry_with_role e r" "r \<noteq> ''assistant''"
  shows "\<exists>e'. translate ops e = Inr (Some e')
            \<and> map_of e' ''role'' = Some (JStr (if r = ''user'' then ''assistant'' else ''system''))"
proof -
  from assms have r: "r = ''user'' \<or> r = ''system''"
    by (auto simp: entry_with_role_def)
  from assms(1) have g: "dict_get e ''role'' (JStr '''') = JStr r"
    "dict_get e ''message'' (JStr '''') = JStr ''''"
    "dict_get e ''secondsFromStart'' (JFloat (f_of_int ops 0)) = JFloat (f_of_int ops 0)"
    "dict_get e ''duration'' (JInt 0) = JInt 0"
    by (simp_all add: entry_with_role_def dict_get_def)
  from r show ?thesis
    by (auto simp: translate_def g coval_role_of_def Let_def py_truediv_def py_add_def
          int_to_float_def)
qed

lemma collect_output_entries:
  "collect ops msgs = Inr t \<Longrightarrow> \<forall>e\<in>set t. \<exists>r. entry_with_role e r"
proof (induction msgs arbitrary: t)
  case Nil
  then show ?case by simp
next
  case (Cons m msgs)
  show ?case
  proof (cases m)
    case (JObj d)
    with Cons.prems have c: "(case translate ops d of
        Inl e \<Rightarrow> Inl e
      | Inr None \<Rightarrow> collect ops msgs
      | Inr (Some entry) \<Rightarrow> (case collect ops msgs of Inl e \<Rightarrow> Inl e | Inr es \<Rightarrow> Inr (entry # es))) = Inr t"
      by (simp add: translate_eq_collect1 del: loop_body.simps)
    show ?thesis
    proof (cases "translate ops d")
      case (Inl e)
      with c show ?thesis by simp
    next
      case (Inr res)
      show ?thesis
      proof (cases res)
        case None
        with Inr c Cons.IH show ?thesis by simp
      next
        case (Some entry)
        with Inr c obtain es where es: "collect ops msgs = Inr es" "t = entry # es"
          by (auto split: sum.splits)
        from Some Inr have "\<exists>r. entry_with_role entry r"
          using translate_entry_role by blast
        with es Cons.IH [of es] show ?thesis by simp
      qed
    qed
  qed (use Cons.prems in simp_all)
qed

lemma collect_of_entries:
  "\<forall>e\<in>set t. \<exists>r. entry_with_role e r \<Longrightarrow>
   \<exists>t'. collect ops (map JObj t) = Inr t'
      \<and> list_all2 (\<lambda>e e'. map_of e ''role'' = Some (JStr ''user'')
                       \<longrightarrow> map_of e' ''role'' = Some (JStr ''assistant''))
            (filter not_assistant t) t'"
proof (induction t)
  case Nil
  show ?case by simp
next
  case (Cons e t)
  then obtain t' where t': "collect ops (map JObj t) = Inr t'"
    "list_all2 (\<lambda>e e'. map_of e ''role'' = Some (JStr ''user'')
                       \<longrightarrow> map_of e' ''role'' = Some (JStr ''assistant''))
            (filter not_assistant t) t'"
    by auto
  from Cons.prems obtain r where r: "entry_with_role e r" by auto
  show ?case
  proof (cases "r = ''assistant''")
    case True
    with r have "translate ops e = Inr None" "\<not> not_assistant e"
      by (simp_all add: translate_entry_assistant not_assistant_def entry_with_role_def)
    with t' show ?thesis
      by (simp add: translate_eq_collect1 del: loop_body.simps)
  next
    case False
    with r obtain e' where e': "translate ops e = Inr (Some e')"
      "map_of e' ''role'' = Some (JStr (if r = ''user'' then ''assistant'' else ''system''))"
      using translate_entry_other by blast
    from False r have "not_assistant e" "map_of e ''role'' = Some (JStr r)"
      by (simp_all add: not_assistant_def entry_with_role_def)
    with e' t' show ?thesis
      by (simp add: translate_eq_collect1 del: loop_body.simps)
  qed
qed

lemma rerun_differs:
  assumes "snd (transform_vapi_transcript ops msgs) = Inr t"
    and "\<exists>e\<in>set t. map_of e ''role'' \<in> {Some (JStr ''assistant''), Some (JStr ''user'')}"
  shows "snd (transform_vapi_transcript ops (map JObj t)) \<noteq> Inr t"
proof
  assume same: "snd (transform_vapi_transcript ops (map JObj t)) = Inr t"
  from assms(1) have "\<forall>e\<in>set t. \<exists>r. entry_with_role e r"
    by (simp add: transform_snd collect_output_entries)
  from collect_of_entries [OF this, of ops] same
  have l: "list_all2 (\<lambda>e e'. map_of e ''role'' = Some (JStr ''user'')
                       \<longrightarrow> map_of e' ''role'' = Some (JStr ''assistant''))
            (filter not_assistant t) t"
    by (auto simp: transform_snd)
  then have "length (filter not_assistant t) = length t"
    by (rule list_all2_lengthD)
  then have all: "\<forall>e\<in>set t. not_assistant e"
    using length_filter_less [of _ t not_assistant] by fastforce
  then have "filter not_assistant t = t" by simp
  with l have "\<forall>e\<in>set t. map_of e ''role'' = Some (JStr ''user'')
                       \<longrightarrow> map_of e ''role'' = Some (JStr ''assistant'')"
    by (simp add: list_all2_same)
  then have "\<forall>e\<in>set t. map_of e ''role'' \<noteq> Some (JStr ''user'')" by auto
  with all assms(2) show False by (auto simp: not_assistant_def)
qed

lemma rerun_example:
  "snd (transform_vapi_transcript ops [JObj [(''role'', JStr ''user'')]]) =
     Inr [[(''role'', JStr ''assistant''), (''content'', JStr ''''),
           (''start_time'', JFloat (f_of_int ops 0)),
           (''end_time'', JFloat (f_add ops (f_of_int ops 0) (f_div ops (f_of_int ops 0) (f_of_int ops 1000))))]]"
  by (simp add: transform_snd Let_def dict_get_def dict_has_def
        coval_role_of_def py_truediv_def py_add_def int_to_float_def)













subsection \<open>The claims about the Transcript Mapper\<close>

text \<open>
  C1. The mapper assigns the target role by the fixed reversal table. On every sequence of
  message records whose recognised records are well typed it returns a transcript, and the
  entry of each recognised record carries the role the table \<open>role_reversal_table\<close> gives
  for the record's role: \<^verbatim>\<open>"user"\<close> yields \<^verbatim>\<open>"assistant"\<close>, \<^verbatim>\<open>"bot"\<close> yields \<^verbatim>\<open>"user"\<close>,
  \<^verbatim>\<open>"system"\<close> yields \<^verbatim>\<open>"system"\<close>. On the three-message example of the specification it
  returns exactly two entries, role \<^verbatim>\<open>"assistant"\<close> with text \<^verbatim>\<open>"hi"\<close> and role \<^verbatim>\<open>"user"\<close> with
  text \<^verbatim>\<open>"hello"\<close>; the third message is dropped.
\<close>

theorem mapper_assigns_reversed_roles:
  "((\<forall>m\<in>set recs. recognised m \<longrightarrow> well_typed_message m) \<longrightarrow>
      (\<exists>t. snd (transform_vapi_transcript ops (map JObj recs)) = Inr t \<and>
           list_all2 (\<lambda>m e. \<exists>r r'. vapi_role_of m = JStr r \<and> map_of role_reversal_table r = Some r'
                               \<and> map_of e ''role'' = Some (JStr r'))
                     (filter recognised recs) t))
   \<and> snd (transform_vapi_transcript ops (map JObj (example_messages ops))) =
       Inr [[(''role'', JStr ''assistant''), (''content'', JStr ''hi''),
             (''start_time'', JFloat (f_of_int ops 1)),
             (''end_time'', JFloat (f_add ops (f_of_int ops 1)
                                      (f_div ops (f_of_int ops 500) (f_of_int ops 1000))))],
            [(''role'', JStr ''user''), (''content'', JStr ''hello''),
             (''start_time'', JFloat (f_of_int ops 2)),
             (''end_time'', JFloat (f_add ops (f_of_int ops 2)
                                      (f_div ops (f_of_int ops 1000) (f_of_int ops 1000))))]]"
  using roles_general [of recs ops] example_result [of ops] by blast

theorem mapper_assigns_reversed_roles_witness:
  "list_all well_typed_message (example_messages exact_ops)
   \<and> (\<exists>t. snd (transform_vapi_transcript exact_ops (map JObj (example_messages exact_ops))) = Inr t \<and>
           list_all2 (\<lambda>m e. \<exists>r r'. vapi_role_of m = JStr r \<and> map_of role_reversal_table r = Some r'
                               \<and> map_of e ''role'' = Some (JStr r'))
                     (filter recognised (example_messages exact_ops)) t)"
proof -
  have wt: "list_all well_typed_message (example_messages exact_ops)"
    by (simp add: example_messages_def well_typed_message_def field_ok_def)
  then have "\<forall>m\<in>set (example_messages exact_ops). recognised m \<longrightarrow> well_typed_message m"
    by (simp add: list_all_iff)
  with mapper_assigns_reversed_roles [of "example_messages exact_ops" exact_ops] wt
  show ?thesis by blast
qed

text \<open>
  C2. The mapper returns the translations of exactly the records with a recognised role, in
  the order of the input, so never more entries than there are records. A record with any
  other role is skipped: the outcome of the mapper on a sequence is its outcome on the
  sequence without those records, whatever that outcome is, so a skipped record never
  aborts the transformation of the remaining ones. The transcript is returned whenever the
  recognised records are well typed.
\<close>

theorem mapper_keeps_recognised_in_order:
  "snd (transform_vapi_transcript ops (map JObj recs)) =
     snd (transform_vapi_transcript ops (map JObj (filter recognised recs)))
   \<and> ((\<forall>m\<in>set recs. recognised m \<longrightarrow> well_typed_message m) \<longrightarrow>
        (\<exists>t. snd (transform_vapi_transcript ops (map JObj recs)) = Inr t
           \<and> length t \<le> length recs
           \<and> list_all2 (\<lambda>m e. translate ops m = Inr (Some e)) (filter recognised recs) t))"
  by (rule filter_mapping)

theorem mapper_keeps_recognised_in_order_witness:
  "list_all well_typed_message (example_messages exact_ops)
   \<and> filter recognised (example_messages exact_ops) = take 2 (example_messages exact_ops)
   \<and> (\<exists>t. snd (transform_vapi_transcript exact_ops (map JObj (example_messages exact_ops))) = Inr t
           \<and> length t \<le> 3
           \<and> list_all2 (\<lambda>m e. translate exact_ops m = Inr (Some e))
                (take 2 (example_messages exact_ops)) t)"
proof -
  have wt: "list_all well_typed_message (example_messages exact_ops)"
    by (simp add: example_messages_def well_typed_message_def field_ok_def)
  then have h: "\<forall>m\<in>set (example_messages exact_ops). recognised m \<longrightarrow> well_typed_message m"
    by (simp add: list_all_iff)
  have f: "filter recognised (example_messages exact_ops) = take 2 (example_messages exact_ops)"
    by (simp add: example_messages_def recognised_def vapi_role_of_def dict_get_def)
  have l: "length (example_messages exact_ops) = 3"
    by (simp add: example_messages_def)
  from mapper_keeps_recognised_in_order [of exact_ops "example_messages exact_ops"] h
  show ?thesis unfolding f l using wt by blast
qed

text \<open>
  C3. In every entry the mapper produces, \<^verbatim>\<open>start_time\<close> is the source message's
  \<^verbatim>\<open>secondsFromStart\<close> unchanged (\<^verbatim>\<open>0.0\<close> when the key is absent), and \<^verbatim>\<open>end_time\<close> is that
  value plus the source \<^verbatim>\<open>duration\<close> (\<^verbatim>\<open>0\<close> when absent) divided by \<^verbatim>\<open>1000.0\<close>, with Python's
  \<^verbatim>\<open>+\<close> and \<^verbatim>\<open>/\<close>. With exact arithmetic, a message at 2.0 seconds lasting 1000 milliseconds
  yields start 2.0 and end 3.0.
\<close>

theorem mapper_timing:
  "(\<forall>m\<in>set recs. recognised m \<longrightarrow> well_typed_message m) \<longrightarrow>
     (\<exists>t. snd (transform_vapi_transcript ops (map JObj recs)) = Inr t \<and>
        list_all2 (\<lambda>m e.
             map_of e ''start_time'' = Some (dict_get m ''secondsFromStart'' (JFloat (f_of_int ops 0)))
           \<and> (\<exists>d x. py_truediv ops (dict_get m ''duration'' (JInt 0)) (f_of_int ops 1000) = Inr d
                \<and> py_add ops (dict_get m ''secondsFromStart'' (JFloat (f_of_int ops 0))) d = Inr x
                \<and> map_of e ''end_time'' = Some (JFloat x)))
          (filter recognised recs) t)"
  using timing_general [of recs ops] by blast

theorem mapper_timing_witness:
  "well_typed_message [(''role'', JStr ''bot''), (''message'', JStr ''hello''),
                       (''secondsFromStart'', JFloat (2 :: rat)), (''duration'', JInt 1000)]
   \<and> (\<exists>e. snd (transform_vapi_transcript exact_ops
                 [JObj [(''role'', JStr ''bot''), (''message'', JStr ''hello''),
                        (''secondsFromStart'', JFloat 2), (''duration'', JInt 1000)]]) = Inr [e]
         \<and> map_of e ''start_time'' = Some (JFloat 2) \<and> map_of e ''end_time'' = Some (JFloat 3))"
proof -
  let ?m = "[(''role'', JStr ''bot''), (''message'', JStr ''hello''),
             (''secondsFromStart'', JFloat (2 :: rat)), (''duration'', JInt 1000)]"
  have wt: "well_typed_message ?m"
    by (simp add: well_typed_message_def field_ok_def)
  have r: "recognised ?m"
    by (simp add: recognised_def vapi_role_of_def dict_get_def)
  from mapper_timing [of "[?m]" exact_ops] wt r obtain t where
    t: "snd (transform_vapi_transcript exact_ops [JObj ?m]) = Inr t"
       "list_all2 (\<lambda>m e.
             map_of e ''start_time'' = Some (dict_get m ''secondsFromStart'' (JFloat (f_of_int exact_ops 0)))
           \<and> (\<exists>d x. py_truediv exact_ops (dict_get m ''duration'' (JInt 0)) (f_of_int exact_ops 1000) = Inr d
                \<and> py_add exact_ops (dict_get m ''secondsFromStart'' (JFloat (f_of_int exact_ops 0))) d = Inr x
                \<and> map_of e ''end_time'' = Some (JFloat x)))
          [?m] t"
    by auto
  from t(2) obtain e where e: "t = [e]"
    "map_of e ''start_time'' = Some (dict_get ?m ''secondsFromStart'' (JFloat (f_of_int exact_ops 0)))"
    "\<exists>d x. py_truediv exact_ops (dict_get ?m ''duration'' (JInt 0)) (f_of_int exact_ops 1000) = Inr d
                \<and> py_add exact_ops (dict_get ?m ''secondsFromStart'' (JFloat (f_of_int exact_ops 0))) d = Inr x
                \<and> map_of e ''end_time'' = Some (JFloat x)"
    by (auto simp: list_all2_Cons1)
  from e(2) have s: "map_of e ''start_time'' = Some (JFloat 2)"
    by (simp add: dict_get_def)
  from e(3) have "map_of e ''end_time'' = Some (JFloat 3)"
    by (auto simp: dict_get_def py_truediv_def py_add_def int_to_float_def exact_ops_def)
  with wt t(1) e(1) s show ?thesis by blast
qed

text \<open>
  C8. The mapper is not idempotent. There is an input on which mapping the mapper's output
  again gives something else than the output; and this happens for every output that
  contains an entry with role \<^verbatim>\<open>"assistant"\<close> or \<^verbatim>\<open>"user"\<close>: fed back under the same table,
  the former is dropped and the latter is relabelled.
\<close>

theorem mapper_not_idempotent:
  "(\<exists>msgs t. snd (transform_vapi_transcript ops msgs) = Inr t
       \<and> snd (transform_vapi_transcript ops (map JObj t)) \<noteq> Inr t)
   \<and> (snd (transform_vapi_transcript ops msgs) = Inr t
        \<and> (\<exists>e\<in>set t. map_of e ''role'' \<in> {Some (JStr ''assistant''), Some (JStr ''user'')})
      \<longrightarrow> snd (transform_vapi_transcript ops (map JObj t)) \<noteq> Inr t)"
proof (intro conjI impI)
  let ?t = "[[(''role'', JStr ''assistant''), (''content'', JStr ''''),
           (''start_time'', JFloat (f_of_int ops 0)),
           (''end_time'', JFloat (f_add ops (f_of_int ops 0) (f_div ops (f_of_int ops 0) (f_of_int ops 1000))))]]"
  have "snd (transform_vapi_transcript ops (map JObj ?t)) \<noteq> Inr ?t"
    by (rule rerun_differs [OF rerun_example]) simp
  with rerun_example [of ops]
  show "\<exists>msgs t. snd (transform_vapi_transcript ops msgs) = Inr t
       \<and> snd (transform_vapi_transcript ops (map JObj t)) \<noteq> Inr t"
    by blast
next
  assume "snd (transform_vapi_transcript ops msgs) = Inr t
        \<and> (\<exists>e\<in>set t. map_of e ''role'' \<in> {Some (JStr ''assistant''), Some (JStr ''user'')})"
  then show "snd (transform_vapi_transcript ops (map JObj t)) \<noteq> Inr t"
    using rerun_differs [of ops msgs t] by blast
qed

theorem mapper_not_idempotent_witness:
  "snd (transform_vapi_transcript exact_ops (map JObj (example_messages exact_ops))) =
     Inr [[(''role'', JStr ''assistant''), (''content'', JStr ''hi''),
           (''start_time'', JFloat 1), (''end_time'', JFloat (3 / 2))],
          [(''role'', JStr ''user''), (''content'', JStr ''hello''),
           (''start_time'', JFloat 2), (''end_time'', JFloat 3)]]
   \<and> snd (transform_vapi_transcript exact_ops (map JObj
       [[(''role'', JStr ''assistant''), (''content'', JStr ''hi''),
           (''start_time'', JFloat 1), (''end_time'', JFloat (3 / 2))],
          [(''role'', JStr ''user''), (''content'', JStr ''hello''),
           (''start_time'', JFloat 2), (''end_time'', JFloat 3)]])) \<noteq>
     Inr [[(''role'', JStr ''assistant''), (''content'', JStr ''hi''),
           (''start_time'', JFloat 1), (''end_time'', JFloat (3 / 2))],
          [(''role'', JStr ''user''), (''content'', JStr ''hello''),
           (''start_time'', JFloat 2), (''end_time'', JFloat 3)]]"
proof -
  let ?t = "[[(''role'', JStr ''assistant''), (''content'', JStr ''hi''),
           (''start_time'', JFloat (1 :: rat)), (''end_time'', JFloat (3 / 2))],
          [(''role'', JStr ''user''), (''content'', JStr ''hello''),
           (''start_time'', JFloat 2), (''end_time'', JFloat 3)]]"
  have ex: "snd (transform_vapi_transcript exact_ops (map JObj (example_messages exact_ops))) = Inr ?t"
    using example_result [of exact_ops] by (simp add: exact_ops_def)
  have "\<exists>e\<in>set ?t. map_of e ''role'' \<in> {Some (JStr ''assistant''), Some (JStr ''user'')}"
    by simp
  with ex mapper_not_idempotent [of exact_ops "map JObj (example_messages exact_ops)" ?t]
  show ?thesis by blast
qed




section \<open>Properties of the Submission Client and the Status Poller\<close>

lemma world_eta: "\<lparr> trace = trace w, calls = calls w \<rparr> = (w :: 'f world)"
  by (cases w) simp

lemma status_printed_nothing:
  "snd (get_run_status_outcome oc) = Inr s \<Longrightarrow> truthy ops s \<Longrightarrow> fst (get_run_status_outcome oc) = []"
  by (auto simp: get_run_status_outcome_def split: http_outcome.splits if_splits sum.splits)

lemma get_run_status_eq:
  "get_run_status cfg env run_id w =
     (snd (get_run_status_outcome (env (calls w))),
      \<lparr> trace = trace w @ [status_query cfg run_id]
                 @ map Print (fst (get_run_status_outcome (env (calls w)))),
        calls = Suc (calls w) \<rparr>)"
  by (simp add: get_run_status_def request_def prints_def status_query_def Let_def split: prod.splits)

lemma loop_step_continue:
  assumes "snd (get_run_status_outcome (env (calls w))) = Inr s" "truthy ops s"
    "s \<notin> set terminal_statuses"
  shows "monitoring_loop ops cfg env run_id w =
     monitoring_loop ops cfg env run_id
       \<lparr> trace = trace w @ polled cfg run_id [s], calls = Suc (calls w) \<rparr>"
  using assms status_printed_nothing [OF assms(1,2)]
  by (subst monitoring_loop.simps) (simp add: get_run_status_eq prints_def emit_def)

lemma loop_step_terminal:
  assumes "snd (get_run_status_outcome (env (calls w))) = Inr t" "t \<in> set terminal_statuses"
  shows "monitoring_loop ops cfg env run_id w =
     Some (Returned,
       \<lparr> trace = trace w @ [status_query cfg run_id, Print [Lit ''Current status: '', Val t],
                              Print [Lit (CHR 0x0A # ''Run finished with status: ''), Val t]],
         calls = Suc (calls w) \<rparr>)"
proof -
  from assms(2) have tr: "truthy ops t"
    by (auto simp: terminal_statuses_def)
  from status_printed_nothing [OF assms(1) tr] assms tr show ?thesis
    by (subst monitoring_loop.simps) (simp add: get_run_status_eq prints_def emit_def)
qed

lemma failed_status_outcome:
  "request_failed oc \<Longrightarrow> snd (get_run_status_outcome oc) = Inr JNull"
  by (cases oc) (simp_all add: get_run_status_outcome_def)

lemma loop_step_failed:
  assumes "request_failed (env (calls w))"
  shows "monitoring_loop ops cfg env run_id w =
     Some (Returned,
       \<lparr> trace = trace w @ [status_query cfg run_id]
                  @ map Print (fst (get_run_status_outcome (env (calls w)))),
         calls = Suc (calls w) \<rparr>)"
  using failed_status_outcome [OF assms]
  by (subst monitoring_loop.simps) (simp add: get_run_status_eq)

lemma loop_polls:
  assumes "\<forall>i<length ss. snd (get_run_status_outcome (env (calls w + i))) = Inr (ss ! i)
              \<and> truthy ops (ss ! i) \<and> ss ! i \<notin> set terminal_statuses"
  shows "monitoring_loop ops cfg env run_id w =
     monitoring_loop ops cfg env run_id
       \<lparr> trace = trace w @ polled cfg run_id ss, calls = calls w + length ss \<rparr>"
  using assms
proof (induction ss arbitrary: w)
  case Nil
  show ?case by (simp add: world_eta)
next
  case (Cons s ss)
  from Cons.prems have h: "snd (get_run_status_outcome (env (calls w))) = Inr s" "truthy ops s"
    "s \<notin> set terminal_statuses"
    by auto
  let ?w = "\<lparr> trace = trace w @ polled cfg run_id [s], calls = Suc (calls w) \<rparr>"
  have "\<forall>i<length ss. snd (get_run_status_outcome (env (calls ?w + i))) = Inr (ss ! i)
              \<and> truthy ops (ss ! i) \<and> ss ! i \<notin> set terminal_statuses"
  proof (intro allI impI)
    fix i assume "i < length ss"
    then have "Suc i < length (s # ss)" by simp
    with Cons.prems have "snd (get_run_status_outcome (env (calls w + Suc i))) = Inr ((s # ss) ! Suc i)
              \<and> truthy ops ((s # ss) ! Suc i) \<and> (s # ss) ! Suc i \<notin> set terminal_statuses"
      by blast
    then show "snd (get_run_status_outcome (env (calls ?w + i))) = Inr (ss ! i)
              \<and> truthy ops (ss ! i) \<and> ss ! i \<notin> set terminal_statuses"
      by simp
  qed
  from Cons.IH [OF this] loop_step_continue [of env w s ops cfg run_id] h
  show ?case by simp
qed

lemma poller_terminal:
  assumes "\<forall>i<length ss. snd (get_run_status_outcome (env (calls w + i))) = Inr (ss ! i)
              \<and> truthy ops (ss ! i) \<and> ss ! i \<notin> set terminal_statuses"
    and "snd (get_run_status_outcome (env (calls w + length ss))) = Inr t"
    and "t \<in> set terminal_statuses"
  shows "monitoring_loop ops cfg env run_id w =
     Some (Returned,
       \<lparr> trace = trace w @ polled cfg run_id ss
                  @ [status_query cfg run_id, Print [Lit ''Current status: '', Val t],
                     Print [Lit (CHR 0x0A # ''Run finished with status: ''), Val t]],
         calls = calls w + length ss + 1 \<rparr>)"
proof -
  let ?w = "\<lparr> trace = trace w @ polled cfg run_id ss, calls = calls w + length ss \<rparr>"
  from assms(2) have "snd (get_run_status_outcome (env (calls ?w))) = Inr t" by simp
  with loop_step_terminal [of env ?w t ops cfg run_id] assms(3) loop_polls [OF assms(1), of cfg run_id]
  show ?thesis by simp
qed

lemma poller_failed:
  assumes "\<forall>i<length ss. snd (get_run_status_outcome (env (calls w + i))) = Inr (ss ! i)
              \<and> truthy ops (ss ! i) \<and> ss ! i \<notin> set terminal_statuses"
    and "request_failed (env (calls w + length ss))"
  shows "monitoring_loop ops cfg env run_id w =
     Some (Returned,
       \<lparr> trace = trace w @ polled cfg run_id ss @ [status_query cfg run_id]
                  @ map Print (fst (get_run_status_outcome (env (calls w + length ss)))),
         calls = calls w + length ss + 1 \<rparr>)"
proof -
  let ?w = "\<lparr> trace = trace w @ polled cfg run_id ss, calls = calls w + length ss \<rparr>"
  from assms(2) have "request_failed (env (calls ?w))" by simp
  with loop_step_failed [of env ?w ops cfg run_id] loop_polls [OF assms(1), of cfg run_id]
  show ?thesis by simp
qed

lemma launch_run_eq:
  "launch_run cfg env agent_id persona_id test_set_id metric_ids iteration_count concurrency w =
     (snd (launch_run_outcome (env (calls w))),
      \<lparr> trace = trace w
          @ [Print [Lit ''Launching simulation run...''],
             Print [Lit ''Agent ID: '', Val (JStr agent_id)],
             Print [Lit ''Persona ID: '', Val (JStr persona_id)],
             Print [Lit ''Test Set ID: '', Val (JStr test_set_id)],
             HttpPost [Lit RUNS_API_URL] (api_headers (COVAL_API_KEY cfg))
               (JObj ([(''agent_id'', JStr agent_id),
                     (''persona_id'', JStr persona_id),
                     (''test_set_id'', JStr test_set_id),
                     (''options'', JObj [(''iteration_count'', JInt iteration_count),
                                         (''concurrency'', JInt concurrency)])]
                    @ (if metric_ids \<noteq> [] then [(''metric_ids'', JList (map JStr metric_ids))] else [])))
               API_TIMEOUT]
          @ map Print (fst (launch_run_outcome (env (calls w)))),
        calls = Suc (calls w) \<rparr>)"
  by (simp add: launch_run_def request_def prints_def Let_def split: prod.splits)

lemma failed_launch_outcome:
  "request_failed oc \<Longrightarrow> snd (launch_run_outcome oc) = Inr JNull"
  by (cases oc) (simp_all add: launch_run_outcome_def)

lemma http_requests_append: "http_requests (xs @ ys) = http_requests xs + http_requests ys"
  by (simp add: http_requests_def)

lemma http_requests_prints: "http_requests (map Print ls) = 0"
  by (induction ls) (simp_all add: http_requests_def)

lemma launch_run_one_request:
  "http_requests (trace (snd (launch_run cfg env a p t m i c w))) = Suc (http_requests (trace w))
   \<and> calls (snd (launch_run cfg env a p t m i c w)) = Suc (calls w)"
  by (simp add: launch_run_eq http_requests_append http_requests_prints) (simp add: http_requests_def)

subsection \<open>The claims about the Submission Client\<close>

text \<open>
  C4, amended to what the code does. On an HTTP 200 response whose JSON body is an object with the created
  run, an object, under \<^verbatim>\<open>"run"\<close>, \<^verbatim>\<open>launch_run\<close> returns the run's \<^verbatim>\<open>run_id\<close> (\<^verbatim>\<open>None\<close> when
  the run has none) after that one request. The run's status is read and printed; it is not
  part of what is returned. On the body \<^verbatim>\<open>{"run": {"run_id": "r1", "status": "QUEUED"}}\<close>
  the value returned is \<^verbatim>\<open>"r1"\<close>.
\<close>

theorem launch_run_returns_identifier:
  "env (calls w) = Responded response \<and> status_code response = 200
   \<and> body_json response = Inr (JObj d) \<and> map_of d ''run'' = Some (JObj run)
   \<longrightarrow> fst (launch_run cfg env agent_id persona_id test_set_id metric_ids iteration_count
              concurrency w) = Inr (dict_get run ''run_id'' JNull)
     \<and> Print [Lit ''Status: '', Val (dict_get run ''status'' JNull)]
         \<in> set (trace (snd (launch_run cfg env agent_id persona_id test_set_id metric_ids
                               iteration_count concurrency w)))
     \<and> calls (snd (launch_run cfg env agent_id persona_id test_set_id metric_ids
                      iteration_count concurrency w)) = Suc (calls w)"
  by (simp add: launch_run_eq launch_run_outcome_def dict_get_def)

theorem launch_run_returns_identifier_witness:
  "fst (launch_run example_config (always (run_response ''QUEUED'')) ''agent'' ''persona''
          ''testset'' [] 1 1 (world0 :: rat world)) = Inr (JStr ''r1'')
   \<and> Print [Lit ''Status: '', Val (JStr ''QUEUED'')]
       \<in> set (trace (snd (launch_run example_config (always (run_response ''QUEUED'')) ''agent''
                             ''persona'' ''testset'' [] 1 1 (world0 :: rat world))))"
  using launch_run_returns_identifier
    [where env = "always (run_response ''QUEUED'')" and w = "world0 :: rat world"
       and response = "\<lparr> status_code = 200, response_text = '''',
              body_json = Inr (JObj [(''run'', JObj [(''run_id'', JStr ''r1''),
                                                     (''status'', JStr ''QUEUED'')])]) \<rparr>"
       and d = "[(''run'', JObj [(''run_id'', JStr ''r1''), (''status'', JStr ''QUEUED'')])]"
       and run = "[(''run_id'', JStr ''r1''), (''status'', JStr ''QUEUED'')]"
       and cfg = example_config and agent_id = "''agent''" and persona_id = "''persona''"
       and test_set_id = "''testset''" and metric_ids = "[]" and iteration_count = 1
       and concurrency = 1]
  by (simp add: always_def run_response_def dict_get_def)

text \<open>
  The return value of \<^verbatim>\<open>launch_run\<close> does not carry the status: two responses that differ
  in the status of the run only are both answered with the identifier alone.
\<close>

theorem launch_run_status_not_returned:
  "fst (launch_run example_config (always (run_response ''QUEUED'')) ''agent'' ''persona''
          ''testset'' [] 1 1 (world0 :: rat world)) = Inr (JStr ''r1'')
   \<and> fst (launch_run example_config (always (run_response ''RUNNING'')) ''agent'' ''persona''
          ''testset'' [] 1 1 (world0 :: rat world)) = Inr (JStr ''r1'')"
  by (simp add: launch_run_eq launch_run_outcome_def always_def run_response_def dict_get_def)

text \<open>
  C5. When the request of \<^verbatim>\<open>launch_run\<close> fails (a status other than 200, a timeout, or
  another request exception), \<^verbatim>\<open>launch_run\<close> returns \<^verbatim>\<open>None\<close> and has sent that one request
  and no other; \<^verbatim>\<open>main\<close> then exits with code 1, the process having sent one request in
  all.
\<close>

theorem launch_run_failure_no_retry:
  "(request_failed (env (calls w)) \<longrightarrow>
       fst (launch_run cfg env agent_id persona_id test_set_id metric_ids iteration_count
              concurrency w) = Inr JNull
     \<and> http_requests (trace (snd (launch_run cfg env agent_id persona_id test_set_id metric_ids
                                     iteration_count concurrency w)))
         = Suc (http_requests (trace w))
     \<and> calls (snd (launch_run cfg env agent_id persona_id test_set_id metric_ids
                      iteration_count concurrency w)) = Suc (calls w))
   \<and> (COVAL_API_KEY cfg \<noteq> ''your_coval_api_key'' \<and> AGENT_ID cfg \<noteq> ''your_agent_id''
      \<and> PERSONA_ID cfg \<noteq> ''your_persona_id'' \<and> TEST_SET_ID cfg \<noteq> ''your_test_set_id''
      \<and> request_failed (env 0) \<longrightarrow>
       (\<exists>w'. main_launch_run ops cfg env = Some (Exited 1, w')
            \<and> http_requests (trace w') = 1 \<and> calls w' = 1))"
proof (intro conjI impI)
  assume "request_failed (env (calls w))"
  then show "fst (launch_run cfg env agent_id persona_id test_set_id metric_ids iteration_count
              concurrency w) = Inr JNull"
    by (simp add: launch_run_eq failed_launch_outcome)
next
  show "http_requests (trace (snd (launch_run cfg env agent_id persona_id test_set_id metric_ids
                                     iteration_count concurrency w)))
         = Suc (http_requests (trace w))"
    using launch_run_one_request by blast
next
  show "calls (snd (launch_run cfg env agent_id persona_id test_set_id metric_ids
                      iteration_count concurrency w)) = Suc (calls w)"
    using launch_run_one_request by blast
next
  assume a: "COVAL_API_KEY cfg \<noteq> ''your_coval_api_key'' \<and> AGENT_ID cfg \<noteq> ''your_agent_id''
      \<and> PERSONA_ID cfg \<noteq> ''your_persona_id'' \<and> TEST_SET_ID cfg \<noteq> ''your_test_set_id''
      \<and> request_failed (env 0)"
  let ?l = "launch_run cfg env (AGENT_ID cfg) (PERSONA_ID cfg) (TEST_SET_ID cfg) (METRIC_IDS cfg)
                (ITERATION_COUNT cfg) (CONCURRENCY cfg) (world0 :: 'a world)"
  from a have f: "fst ?l = Inr JNull"
    by (simp add: launch_run_eq failed_launch_outcome world0_def)
  have r: "http_requests (trace (snd ?l)) = 1" "calls (snd ?l) = 1"
    using launch_run_one_request [of cfg env "AGENT_ID cfg" "PERSONA_ID cfg" "TEST_SET_ID cfg"
        "METRIC_IDS cfg" "ITERATION_COUNT cfg" "CONCURRENCY cfg" "world0 :: 'a world"]
    by (simp_all add: world0_def http_requests_def)
  obtain res w1 where l: "?l = (res, w1)" by (cases ?l)
  with f r have "res = Inr JNull" "http_requests (trace w1) = 1" "calls w1 = 1" by simp_all
  with a l show "\<exists>w'. main_launch_run ops cfg env = Some (Exited 1, w')
            \<and> http_requests (trace w') = 1 \<and> calls w' = 1"
    by (simp add: main_launch_run_def prints_def http_requests_append) (simp add: http_requests_def)
qed

theorem launch_run_failure_no_retry_witness:
  "request_failed (Responded \<lparr> status_code = 500, response_text = ''oops'',
                               body_json = Inl ''no JSON'' \<rparr> :: rat http_outcome)
   \<and> (\<exists>w'. main_launch_run exact_ops example_config
              (always (Responded \<lparr> status_code = 500, response_text = ''oops'',
                                   body_json = Inl ''no JSON'' \<rparr>)) = Some (Exited 1, w')
          \<and> http_requests (trace w') = 1 \<and> calls w' = 1)"
  using launch_run_failure_no_retry
    [where cfg = example_config and ops = exact_ops
       and env = "always (Responded \<lparr> status_code = 500, response_text = ''oops'',
                                      body_json = Inl ''no JSON'' \<rparr>)"]
  by (simp add: always_def example_config_def)

subsection \<open>The claims about the Status Poller\<close>

text \<open>
  C6. Let the next queries be answered with the statuses \<open>ss\<close>, each of them a status on
  which the loop goes on (true for Python and not in the terminal set), and the query after
  them with a terminal status \<open>t\<close>. Then the poller returns, and what it has done is: for
  each status of \<open>ss\<close> in turn one query, the status printed and a sleep of
  \<^verbatim>\<open>POLL_INTERVAL_SECONDS\<close>; then one query, \<open>t\<close> printed, and the line that the run
  finished with status \<open>t\<close>. It has sent one query per status received and none after \<open>t\<close>.
\<close>

theorem poller_halts_at_first_terminal_status:
  "(\<forall>i<length ss. snd (get_run_status_outcome (env (calls w + i))) = Inr (ss ! i)
        \<and> truthy ops (ss ! i) \<and> ss ! i \<notin> set terminal_statuses)
   \<and> snd (get_run_status_outcome (env (calls w + length ss))) = Inr t
   \<and> t \<in> set terminal_statuses
   \<longrightarrow> monitoring_loop ops cfg env run_id w =
         Some (Returned,
           \<lparr> trace = trace w @ polled cfg run_id ss
                      @ [status_query cfg run_id, Print [Lit ''Current status: '', Val t],
                         Print [Lit (CHR 0x0A # ''Run finished with status: ''), Val t]],
             calls = calls w + length ss + 1 \<rparr>)"
  using poller_terminal [of ss env w ops t cfg run_id] by blast

theorem poller_halts_at_first_terminal_status_witness:
  "monitoring_loop exact_ops example_config
     (scripted [run_response ''QUEUED'', run_response ''RUNNING'', run_response ''COMPLETED''])
     (JStr ''r1'') world0 =
   Some (Returned,
     \<lparr> trace = [status_query example_config (JStr ''r1''),
                 Print [Lit ''Current status: '', Val (JStr ''QUEUED'')], Sleep 5,
                 status_query example_config (JStr ''r1''),
                 Print [Lit ''Current status: '', Val (JStr ''RUNNING'')], Sleep 5,
                 status_query example_config (JStr ''r1''),
                 Print [Lit ''Current status: '', Val (JStr ''COMPLETED'')],
                 Print [Lit (CHR 0x0A # ''Run finished with status: ''), Val (JStr ''COMPLETED'')]],
       calls = 3 \<rparr>)"
  using poller_halts_at_first_terminal_status
    [where ss = "[JStr ''QUEUED'', JStr ''RUNNING'']" and t = "JStr ''COMPLETED''"
       and env = "scripted [run_response ''QUEUED'', run_response ''RUNNING'',
                            run_response ''COMPLETED'']"
       and w = world0 and ops = exact_ops and cfg = example_config and run_id = "JStr ''r1''"]
  by (simp add: All_less_Suc scripted_def run_response_def get_run_status_outcome_def
        world0_def terminal_statuses_def dict_get_def POLL_INTERVAL_SECONDS_def)

text \<open>
  C7. Let the next queries be answered with the statuses \<open>ss\<close>, on each of which the loop
  goes on, and let the query after them fail: a timeout, another request exception, or a
  status code other than 200. Then the poller returns after that query and sends no other.
  What it has printed is each status of \<open>ss\<close> as it came, the last of them being the last
  known status (none when \<open>ss\<close> is empty), and then the report of the failure.
\<close>

theorem poller_stops_at_failed_query:
  "(\<forall>i<length ss. snd (get_run_status_outcome (env (calls w + i))) = Inr (ss ! i)
        \<and> truthy ops (ss ! i) \<and> ss ! i \<notin> set terminal_statuses)
   \<and> request_failed (env (calls w + length ss))
   \<longrightarrow> monitoring_loop ops cfg env run_id w =
         Some (Returned,
           \<lparr> trace = trace w @ polled cfg run_id ss @ [status_query cfg run_id]
                      @ map Print (fst (get_run_status_outcome (env (calls w + length ss)))),
             calls = calls w + length ss + 1 \<rparr>)
       \<and> fst (get_run_status_outcome (env (calls w + length ss))) \<noteq> []"
proof (intro impI conjI)
  assume a: "(\<forall>i<length ss. snd (get_run_status_outcome (env (calls w + i))) = Inr (ss ! i)
        \<and> truthy ops (ss ! i) \<and> ss ! i \<notin> set terminal_statuses)
   \<and> request_failed (env (calls w + length ss))"
  then show "monitoring_loop ops cfg env run_id w =
         Some (Returned,
           \<lparr> trace = trace w @ polled cfg run_id ss @ [status_query cfg run_id]
                      @ map Print (fst (get_run_status_outcome (env (calls w + length ss)))),
             calls = calls w + length ss + 1 \<rparr>)"
    using poller_failed [of ss env w ops cfg run_id] by blast
  from a have "request_failed (env (calls w + length ss))" by blast
  then show "fst (get_run_status_outcome (env (calls w + length ss))) \<noteq> []"
    by (cases "env (calls w + length ss)") (simp_all add: get_run_status_outcome_def)
qed

theorem poller_stops_at_failed_query_witness:
  "monitoring_loop exact_ops example_config
     (scripted [run_response ''QUEUED'', TimedOut, run_response ''COMPLETED''])
     (JStr ''r1'') world0 =
   Some (Returned,
     \<lparr> trace = [status_query example_config (JStr ''r1''),
                 Print [Lit ''Current status: '', Val (JStr ''QUEUED'')], Sleep 5,
                 status_query example_config (JStr ''r1''),
                 Print [Lit ''Error: Request timed out after '', Val (JInt 30), Lit '' seconds'']],
       calls = 2 \<rparr>)"
  using poller_stops_at_failed_query
    [where ss = "[JStr ''QUEUED'']"
       and env = "scripted [run_response ''QUEUED'', TimedOut, run_response ''COMPLETED'']"
       and w = world0 and ops = exact_ops and cfg = example_config and run_id = "JStr ''r1''"]
  by (simp add: scripted_def run_response_def get_run_status_outcome_def
        world0_def terminal_statuses_def dict_get_def POLL_INTERVAL_SECONDS_def API_TIMEOUT_def)

subsection \<open>The claim about the configuration\<close>

text \<open>
  C9. When one of the identifiers or keys that \<^verbatim>\<open>main\<close> requires still has its placeholder
  value, the process prints one line asking to update it and exits with code 1, and that is
  all it does: no request has been sent. This holds for launch_run.py (API key, agent,
  persona, test set) and for vapi_upload.py (both API keys and the call identifier).
\<close>

theorem placeholder_halts_before_any_request:
  "(COVAL_API_KEY cfg = ''your_coval_api_key'' \<or> AGENT_ID cfg = ''your_agent_id''
      \<or> PERSONA_ID cfg = ''your_persona_id'' \<or> TEST_SET_ID cfg = ''your_test_set_id''
    \<longrightarrow> (\<exists>what. main_launch_run ops cfg env =
           Some (Exited 1, \<lparr> trace = [Print [Lit (''Error: Please update '' @ what)]], calls = 0 \<rparr>)))
   \<and> (VAPI_API_KEY vcfg = ''your_vapi_api_key'' \<or> COVAL_API_KEY_vapi vcfg = ''your_coval_api_key''
      \<or> CALL_ID vcfg = ''your_vapi_call_id''
    \<longrightarrow> (\<exists>what. main_vapi_upload ops vcfg now env =
           (Exited 1, \<lparr> trace = [Print [Lit (''Error: Please update '' @ what)]], calls = 0 \<rparr>)))"
  by (auto simp: main_launch_run_def main_vapi_upload_def prints_def world0_def)

theorem placeholder_halts_before_any_request_witness:
  "(\<exists>what. main_launch_run exact_ops (example_config \<lparr> PERSONA_ID := ''your_persona_id'' \<rparr>)
             (always TimedOut) =
           Some (Exited 1, \<lparr> trace = [Print [Lit (''Error: Please update '' @ what)]], calls = 0 \<rparr>))
   \<and> (\<exists>what. main_vapi_upload exact_ops (example_vapi_config \<lparr> CALL_ID := ''your_vapi_call_id'' \<rparr>)
             ''2026-01-01T00:00:00'' (always TimedOut) =
           (Exited 1, \<lparr> trace = [Print [Lit (''Error: Please update '' @ what)]], calls = 0 \<rparr>))"
  using placeholder_halts_before_any_request
    [where cfg = "example_config \<lparr> PERSONA_ID := ''your_persona_id'' \<rparr>"
       and vcfg = "example_vapi_config \<lparr> CALL_ID := ''your_vapi_call_id'' \<rparr>"
       and ops = exact_ops and env = "always TimedOut" and now = "''2026-01-01T00:00:00''"]
  by simp

end
